theory Spec2Isabelle
  imports Complex_Main "HOL-Library.Sublist"
begin

section \<open>Word of the Day MCP server (src/src/index.ts)\<close>

text \<open>
  A shallow embedding of the tool-call handlers of \<^verbatim>\<open>WordOfTheDayServer\<close>.
  Strings are byte strings (UTF-8). A thrown value is a value of type \<open>thrown\<close> and a
  function that may throw returns \<open>thrown + 'a\<close>. The outside world of one call (the
  reply of the dictionary API to a URL, the number delivered by \<^verbatim>\<open>Math.random()\<close>, the
  wording the validation library gives to its issues) is the record \<open>env\<close>; every
  handler returns, next to its outcome, the list of network effects it performed, in
  order. A \<^verbatim>\<open>fetch\<close> promise that never settles is outside the model.
\<close>

subsection \<open>Dictionary API response types\<close>

text \<open>
  The interfaces \<^verbatim>\<open>PhoneticInfo\<close>, \<^verbatim>\<open>Definition\<close>, \<^verbatim>\<open>Meaning\<close>, \<^verbatim>\<open>WordEntry\<close>. The
  values come from \<^verbatim>\<open>response.json()\<close> unchecked, so every field whose presence the
  code tests (or that it dereferences where another line tests it) is optional here:
  \<open>None\<close> is JavaScript's \<^verbatim>\<open>undefined\<close>. The fields \<^verbatim>\<open>text\<close> and \<^verbatim>\<open>definition\<close> are
  named \<open>text_of\<close> and \<open>definition_of\<close>.
\<close>

record PhoneticInfo =
  text_of :: "string option"
  audio :: "string option"

record Definition =
  definition_of :: string
  example :: "string option"
  synonyms :: "string list option"
  antonyms :: "string list option"

record Meaning =
  partOfSpeech :: string
  definitions :: "Definition list"

record WordEntry =
  word :: string
  phonetic :: "string option"
  phonetics :: "PhoneticInfo list option"
  origin :: "string option"
  meanings :: "Meaning list"

subsection \<open>Values, failures, results, effects\<close>

text \<open>The argument object of a tool call is an arbitrary JSON value, or absent.\<close>

datatype json =
    JUndefined
  | JNull
  | JBool bool
  | JNum int
  | JStr string
  | JArr "json list"
  | JObj "(string \<times> json) list"

text \<open>
  An issue reported by the validation library: the path of the offending property and
  what was wrong with it.
\<close>

datatype zod_issue =
    InvalidType "string list" string json
  | TooSmall "string list" string
  | InvalidEnumValue "string list" json

text \<open>
  What a \<^verbatim>\<open>throw\<close> or a rejected promise carries: an instance of \<^verbatim>\<open>Error\<close> with its
  message (\<^verbatim>\<open>Error\<close>, \<^verbatim>\<open>TypeError\<close>, \<^verbatim>\<open>SyntaxError\<close>), the validation library's
  \<^verbatim>\<open>ZodError\<close> (also an instance of \<^verbatim>\<open>Error\<close>) with its issues, or a value that is no
  instance of \<^verbatim>\<open>Error\<close>.
\<close>

datatype thrown =
    JsError string
  | ZodError "zod_issue list"
  | NonError

text \<open>The value \<^verbatim>\<open>{ content: [{ type: 'text', text: ... }] }\<close>.\<close>

datatype content_item = TextContent string

record CallToolResult =
  content :: "content_item list"

definition textResult :: "string \<Rightarrow> CallToolResult" where
  "textResult s = \<lparr>content = [TextContent s]\<rparr>"

text \<open>What \<^verbatim>\<open>await response.json()\<close> yields when it does not throw.\<close>

datatype json_body =
    JsonNull
  | JsonArray "WordEntry list"

text \<open>
  A response of \<^verbatim>\<open>fetch\<close>. The field \<open>json\<close> is what reading and decoding the body
  would give, were it attempted.
\<close>

record Response =
  status :: nat
  statusText :: string
  json :: "thrown + json_body"

definition ok :: "Response \<Rightarrow> bool" where
  "ok response = (200 \<le> status response \<and> status response \<le> 299)"

datatype fetch_outcome =
    Rejected thrown
  | Resolved Response

datatype event =
    HttpGet string
  | ReadJson

text \<open>
  A non-negative double below \<open>2^53\<close>: the value \<open>significand / 2 ^ scale\<close> with a
  significand of at most 53 bits and a scale of at most 1074 (the subnormal doubles have
  scale 1074). One value has several such writings; nothing below depends on which.
\<close>

record double =
  significand :: nat
  scale :: nat

definition isDouble :: "double \<Rightarrow> bool" where
  "isDouble d = (significand d < 2 ^ 53 \<and> scale d \<le> 1074)"

definition valueOf :: "double \<Rightarrow> rat" where
  "valueOf d = of_nat (significand d) / 2 ^ scale d"

text \<open>What \<^verbatim>\<open>Math.random()\<close> may return: a double at least 0 and below 1.\<close>

definition inUnitInterval :: "double \<Rightarrow> bool" where
  "inUnitInterval d = (isDouble d \<and> significand d < 2 ^ scale d)"

record env =
  fetch :: "string \<Rightarrow> fetch_outcome"
  Math_random :: double
  zodMessage :: "zod_issue list \<Rightarrow> string"

subsection \<open>JavaScript helpers\<close>

definition newline :: string where
  "newline = [CHR 0x0A]"

definition dquote :: string where
  "dquote = [CHR 0x22]"

definition squote :: string where
  "squote = [CHR 0x27]"

text \<open>A string in a condition: true when present and not empty.\<close>

fun truthy :: "string option \<Rightarrow> bool" where
  "truthy None = False"
| "truthy (Some s) = (s \<noteq> [])"

text \<open>A string inside a template literal.\<close>

fun templ :: "string option \<Rightarrow> string" where
  "templ None = ''undefined''"
| "templ (Some s) = s"

fun join :: "string \<Rightarrow> string list \<Rightarrow> string" where
  "join sep [] = []"
| "join sep [x] = x"
| "join sep (x # y # ys) = x @ sep @ join sep (y # ys)"

definition digit :: "nat \<Rightarrow> char" where
  "digit n = ''0123456789ABCDEF'' ! n"

text \<open>A non-negative integer inside a template literal: its decimal digits.\<close>

fun toString :: "nat \<Rightarrow> string" where
  "toString n = (if n < 10 then [digit n] else toString (n div 10) @ [digit (n mod 10)])"

declare toString.simps [simp del]

definition uriUnreserved :: "char \<Rightarrow> bool" where
  "uriUnreserved c =
     (let n = (of_char c :: nat)
      in (65 \<le> n \<and> n \<le> 90) \<or> (97 \<le> n \<and> n \<le> 122) \<or> (48 \<le> n \<and> n \<le> 57)
         \<or> c \<in> set ''-_.!~*()'' \<or> c = CHR 0x27)"

text \<open>
  \<^verbatim>\<open>encodeURIComponent\<close> on a well-formed string: every byte of the UTF-8 encoding
  that is not an unreserved character becomes \<^verbatim>\<open>%XX\<close>.
\<close>

definition encodeURIComponent :: "string \<Rightarrow> string" where
  "encodeURIComponent s =
     concat (map (\<lambda>c. if uriUnreserved c then [c]
                       else [CHR ''%'', digit ((of_char c :: nat) div 16),
                             digit ((of_char c :: nat) mod 16)]) s)"

text \<open>
  The \<^verbatim>\<open>message\<close> of a thrown value, when it is an instance of \<^verbatim>\<open>Error\<close>.
\<close>

fun message :: "env \<Rightarrow> thrown \<Rightarrow> string option" where
  "message e (JsError m) = Some m"
| "message e (ZodError issues) = Some (zodMessage e issues)"
| "message e NonError = None"

text \<open>\<^verbatim>\<open>error instanceof Error ? error.message : fallback\<close>\<close>

definition messageOr :: "env \<Rightarrow> string \<Rightarrow> thrown \<Rightarrow> string" where
  "messageOr e fallback error = (case message e error of Some m \<Rightarrow> m | None \<Rightarrow> fallback)"

text \<open>A destructuring default: \<^verbatim>\<open>const { x = d } = ...\<close>.\<close>

fun orDefault :: "'a \<Rightarrow> 'a option \<Rightarrow> 'a" where
  "orDefault d None = d"
| "orDefault d (Some x) = x"

text \<open>Reading a property of \<^verbatim>\<open>undefined\<close> (the wording of V8).\<close>

definition readOfUndefined :: "string \<Rightarrow> thrown" where
  "readOfUndefined p =
     JsError (''Cannot read properties of undefined (reading '' @ squote @ p @ squote @ '')'')"

subsection \<open>Validation schemas\<close>

text \<open>
  \<^verbatim>\<open>z.object({...}).parse(args)\<close>: the argument must be an object; each property of the
  shape is looked up (a missing key reads as \<^verbatim>\<open>undefined\<close>), unknown keys are dropped,
  the issues of all properties are collected and thrown together.
\<close>

fun getProp :: "(string \<times> json) list \<Rightarrow> string \<Rightarrow> json" where
  "getProp kvs k = (case map_of kvs k of None \<Rightarrow> JUndefined | Some v \<Rightarrow> v)"

text \<open>\<^verbatim>\<open>word: z.string().min(1, 'Word cannot be empty')\<close>\<close>

fun parse_word :: "json \<Rightarrow> zod_issue list + string" where
  "parse_word (JStr s) =
     (if length s < 1 then Inl [TooSmall [''word''] ''Word cannot be empty''] else Inr s)"
| "parse_word v = Inl [InvalidType [''word''] ''string'' v]"

text \<open>
  \<^verbatim>\<open>language: z.string().default('en').optional()\<close>: the outer \<^verbatim>\<open>optional\<close> answers
  \<^verbatim>\<open>undefined\<close> with \<^verbatim>\<open>undefined\<close>.
\<close>

fun parse_language :: "json \<Rightarrow> zod_issue list + string option" where
  "parse_language JUndefined = Inr None"
| "parse_language (JStr s) = Inr (Some s)"
| "parse_language v = Inl [InvalidType [''language''] ''string'' v]"

fun issues_of :: "zod_issue list + 'a \<Rightarrow> zod_issue list" where
  "issues_of (Inl iss) = iss"
| "issues_of (Inr _) = []"

fun GetDefinitionArgsSchema_parse :: "json \<Rightarrow> thrown + (string \<times> string option)" where
  "GetDefinitionArgsSchema_parse (JObj kvs) =
     (case (parse_word (getProp kvs ''word''), parse_language (getProp kvs ''language'')) of
        (Inr w, Inr l) \<Rightarrow> Inr (w, l)
      | (rw, rl) \<Rightarrow> Inl (ZodError (issues_of rw @ issues_of rl)))"
| "GetDefinitionArgsSchema_parse v = Inl (ZodError [InvalidType [] ''object'' v])"

datatype difficulty = Easy | Medium | Hard

text \<open>The members of the enum, as the schema spells them.\<close>

fun difficultyName :: "difficulty \<Rightarrow> string" where
  "difficultyName Easy = ''easy''"
| "difficultyName Medium = ''medium''"
| "difficultyName Hard = ''hard''"

text \<open>\<^verbatim>\<open>difficulty: z.enum(['easy', 'medium', 'hard']).default('medium').optional()\<close>\<close>

fun parse_difficulty :: "json \<Rightarrow> zod_issue list + difficulty option" where
  "parse_difficulty JUndefined = Inr None"
| "parse_difficulty (JStr s) =
     (if s = ''easy'' then Inr (Some Easy)
      else if s = ''medium'' then Inr (Some Medium)
      else if s = ''hard'' then Inr (Some Hard)
      else Inl [InvalidEnumValue [''difficulty''] (JStr s)])"
| "parse_difficulty v =
     Inl [InvalidType [''difficulty'']
            (squote @ ''easy'' @ squote @ '' | '' @ squote @ ''medium'' @ squote @ '' | ''
             @ squote @ ''hard'' @ squote) v]"

fun GetRandomWordArgsSchema_parse :: "json \<Rightarrow> thrown + difficulty option" where
  "GetRandomWordArgsSchema_parse (JObj kvs) =
     (case parse_difficulty (getProp kvs ''difficulty'') of
        Inr d \<Rightarrow> Inr d
      | Inl iss \<Rightarrow> Inl (ZodError iss))"
| "GetRandomWordArgsSchema_parse v = Inl (ZodError [InvalidType [] ''object'' v])"

subsection \<open>getWordDefinition\<close>

text \<open>The pronunciation step (the first \<^verbatim>\<open>if\<close>/\<^verbatim>\<open>else if\<close> after the header).\<close>

definition pronunciation :: "WordEntry \<Rightarrow> string" where
  "pronunciation entry =
     (if truthy (phonetic entry) then
        ''**Pronunciation:** '' @ templ (phonetic entry) @ newline @ newline
      else
        (case phonetics entry of
           None \<Rightarrow> []
         | Some ps \<Rightarrow>
             if length ps > 0 then
               (let phoneticTexts =
                      join '', '' (map (\<lambda>p. templ (text_of p)) (filter (\<lambda>p. truthy (text_of p)) ps))
                in if phoneticTexts \<noteq> [] then
                     ''**Pronunciation:** '' @ phoneticTexts @ newline @ newline
                   else [])
             else []))"

definition originLine :: "WordEntry \<Rightarrow> string" where
  "originLine entry =
     (if truthy (origin entry) then ''**Origin:** '' @ templ (origin entry) @ newline @ newline
      else [])"

definition formatDefinition :: "nat \<times> Definition \<Rightarrow> string" where
  "formatDefinition = (\<lambda>(defIndex, d).
     ''   '' @ toString (defIndex + 1) @ ''. '' @ definition_of d @ newline
     @ (if truthy (example d) then
          ''      *Example: '' @ dquote @ templ (example d) @ dquote @ ''*'' @ newline
        else [])
     @ (case synonyms d of
          None \<Rightarrow> []
        | Some ss \<Rightarrow>
            if length ss > 0 then ''      *Synonyms: '' @ join '', '' ss @ ''*'' @ newline else [])
     @ (case antonyms d of
          None \<Rightarrow> []
        | Some ants \<Rightarrow>
            if length ants > 0 then ''      *Antonyms: '' @ join '', '' ants @ ''*'' @ newline else []))"

definition formatMeaning :: "nat \<times> Meaning \<Rightarrow> string" where
  "formatMeaning = (\<lambda>(index, meaning).
     toString (index + 1) @ ''. **'' @ partOfSpeech meaning @ ''**'' @ newline
     @ concat (map formatDefinition (enumerate 0 (definitions meaning)))
     @ newline)"

definition formatAudio :: "string list \<Rightarrow> string" where
  "formatAudio audioLinks =
     (if length audioLinks > 0 then
        ''**Audio Pronunciation:**'' @ newline
        @ concat (map (\<lambda>(index, a). toString (index + 1) @ ''. '' @ a @ newline)
                      (enumerate 0 audioLinks))
      else [])"

text \<open>
  From \<^verbatim>\<open>const entry = data[0]\<close> to the \<^verbatim>\<open>return\<close>: the text is built in order; the
  audio step calls \<^verbatim>\<open>entry.phonetics.filter\<close> with no test, which throws a
  \<^verbatim>\<open>TypeError\<close> when the field is absent.
\<close>

definition formatEntry :: "WordEntry \<Rightarrow> thrown + string" where
  "formatEntry entry =
     (let result = ''**'' @ word entry @ ''**'' @ newline @ newline;
          result = result @ pronunciation entry;
          result = result @ originLine entry;
          result = result @ ''**Meanings:**'' @ newline @ newline;
          result = result @ concat (map formatMeaning (enumerate 0 (meanings entry)))
      in case phonetics entry of
           None \<Rightarrow> Inl (readOfUndefined ''filter'')
         | Some ps \<Rightarrow>
             (let audioLinks =
                    map (\<lambda>p. templ (audio p)) (filter (\<lambda>p. truthy (audio p)) ps)
              in Inr (result @ formatAudio audioLinks)))"

definition notFound404 :: "string \<Rightarrow> string" where
  "notFound404 w =
     ''No definition found for '' @ dquote @ w @ dquote
     @ ''. Please check the spelling or try a different word.''"

definition notFoundEmpty :: "string \<Rightarrow> string" where
  "notFoundEmpty w = ''No definition found for '' @ dquote @ w @ dquote @ ''.''"

text \<open>The address of the outbound request.\<close>

definition apiUrl :: "string \<Rightarrow> string \<Rightarrow> string" where
  "apiUrl language w =
     ''https://api.dictionaryapi.dev/api/v2/entries/'' @ language @ ''/'' @ encodeURIComponent w"

text \<open>The body of the \<^verbatim>\<open>try\<close> block of \<^verbatim>\<open>getWordDefinition\<close>.\<close>

definition fetchDefinition ::
  "env \<Rightarrow> string \<Rightarrow> string \<Rightarrow> (thrown + CallToolResult) \<times> event list" where
  "fetchDefinition e w language =
     (let url = apiUrl language w
      in case fetch e url of
           Rejected err \<Rightarrow> (Inl err, [HttpGet url])
         | Resolved response \<Rightarrow>
             if \<not> ok response then
               (if status response = 404 then
                  (Inr (textResult (notFound404 w)), [HttpGet url])
                else
                  (Inl (JsError (''Dictionary API error: '' @ toString (status response)
                                 @ '' '' @ statusText response)),
                   [HttpGet url]))
             else
               (case json response of
                  Inl err \<Rightarrow> (Inl err, [HttpGet url, ReadJson])
                | Inr JsonNull \<Rightarrow> (Inr (textResult (notFoundEmpty w)), [HttpGet url, ReadJson])
                | Inr (JsonArray []) \<Rightarrow>
                    (Inr (textResult (notFoundEmpty w)), [HttpGet url, ReadJson])
                | Inr (JsonArray (entry # _)) \<Rightarrow>
                    (case formatEntry entry of
                       Inl err \<Rightarrow> (Inl err, [HttpGet url, ReadJson])
                     | Inr result \<Rightarrow> (Inr (textResult result), [HttpGet url, ReadJson]))))"

definition getWordDefinition :: "env \<Rightarrow> json \<Rightarrow> (thrown + CallToolResult) \<times> event list" where
  "getWordDefinition e args =
     (case GetDefinitionArgsSchema_parse args of
        Inl err \<Rightarrow> (Inl err, [])
      | Inr (w, l) \<Rightarrow>
          (let language = orDefault ''en'' l
           in case fetchDefinition e w language of
                (Inl error, evs) \<Rightarrow>
                  (Inl (JsError (''Failed to fetch definition for '' @ dquote @ w @ dquote
                                 @ '': '' @ messageOr e ''Unknown error'' error)),
                   evs)
              | (Inr r, evs) \<Rightarrow> (Inr r, evs)))"

subsection \<open>getRandomWord\<close>

fun wordLists :: "difficulty \<Rightarrow> string list" where
  "wordLists Easy =
     [''happy'', ''house'', ''water'', ''light'', ''music'', ''friend'', ''smile'', ''peace'',
      ''dream'', ''heart'', ''love'', ''hope'', ''time'', ''life'', ''world'', ''nature'']"
| "wordLists Medium =
     [''serendipity'', ''eloquent'', ''resilient'', ''magnificent'', ''innovative'',
      ''perspective'', ''authentic'', ''curiosity'', ''adventure'', ''harmony'',
      ''wisdom'', ''courage'', ''gratitude'', ''compassion'', ''creativity'', ''balance'']"
| "wordLists Hard =
     [''ephemeral'', ''ubiquitous'', ''perspicacious'', ''surreptitious'', ''magnanimous'',
      ''obfuscate'', ''ameliorate'', ''propensity'', ''vicissitude'', ''perspicuity'',
      ''sesquipedalian'', ''grandiloquent'', ''pusillanimous'', ''truculent'', ''recalcitrant'']"

text \<open>The number of binary digits of a natural number.\<close>

fun bitLength :: "nat \<Rightarrow> nat" where
  "bitLength p = (if p = 0 then 0 else Suc (bitLength (p div 2)))"

declare bitLength.simps [simp del]

text \<open>
  The multiple of \<open>2 ^ s\<close> nearest to \<open>p\<close>; of two equally near ones, the even multiple
  (IEEE 754 round to nearest, ties to even).
\<close>

definition roundTiesToEven :: "nat \<Rightarrow> nat \<Rightarrow> nat" where
  "roundTiesToEven p s =
     (let u = 2 ^ s; k = p div u; rest = p mod u
      in if 2 * rest < u \<or> (2 * rest = u \<and> even k) then k * u else (k + 1) * u)"

text \<open>
  The double product \<^verbatim>\<open>x * n\<close> of a double \<open>x\<close> and a small integer \<open>n\<close> (a list
  length, itself a double), as a numerator over \<open>2 ^ scale x\<close>: the exact product of
  the significand and \<open>n\<close>, rounded to 53 significant bits when it has more. (The
  subtraction on \<open>nat\<close> gives 0 when the product has at most 53 bits, and rounding to a
  multiple of \<open>2 ^ 0\<close> changes nothing.) The rounded product stays a multiple of
  \<open>2 ^ - scale x\<close> and is far from overflow, so this is the IEEE product.
\<close>

definition timesNumerator :: "double \<Rightarrow> nat \<Rightarrow> nat" where
  "timesNumerator x n =
     (let p = significand x * n in roundTiesToEven p (bitLength p - 53))"

text \<open>\<^verbatim>\<open>Math.floor(Math.random() * words.length)\<close>\<close>

definition randomIndex :: "env \<Rightarrow> nat \<Rightarrow> int" where
  "randomIndex e n = int (timesNumerator (Math_random e) n div 2 ^ scale (Math_random e))"

text \<open>\<^verbatim>\<open>words[i]\<close>: \<^verbatim>\<open>undefined\<close> outside the array.\<close>

definition at_index :: "string list \<Rightarrow> int \<Rightarrow> json" where
  "at_index words i = (if 0 \<le> i \<and> nat i < length words then JStr (words ! nat i) else JUndefined)"

definition getRandomWord :: "env \<Rightarrow> json \<Rightarrow> (thrown + CallToolResult) \<times> event list" where
  "getRandomWord e args =
     (case GetRandomWordArgsSchema_parse args of
        Inl err \<Rightarrow> (Inl err, [])
      | Inr d \<Rightarrow>
          (let difficulty = orDefault Medium d;
               words = wordLists difficulty;
               randomWord = at_index words (randomIndex e (length words))
           in getWordDefinition e (JObj [(''word'', randomWord), (''language'', JStr ''en'')])))"

subsection \<open>The tool-call handler\<close>

text \<open>The \<^verbatim>\<open>switch\<close> inside the \<^verbatim>\<open>try\<close> block of the handler.\<close>

definition invokeTool :: "env \<Rightarrow> string \<Rightarrow> json \<Rightarrow> (thrown + CallToolResult) \<times> event list" where
  "invokeTool e name args =
     (if name = ''get_word_definition'' then getWordDefinition e args
      else if name = ''get_random_word'' then getRandomWord e args
      else (Inl (JsError (''Unknown tool: '' @ name)), []))"

text \<open>
  The handler of \<^verbatim>\<open>CallToolRequestSchema\<close>: \<open>Inr\<close> is the value it returns to the
  protocol layer, \<open>Inl\<close> an exception it lets through.
\<close>

definition callTool :: "env \<Rightarrow> string \<Rightarrow> json \<Rightarrow> (thrown + CallToolResult) \<times> event list" where
  "callTool e name args =
     (case invokeTool e name args of
        (Inr r, evs) \<Rightarrow> (Inr r, evs)
      | (Inl error, evs) \<Rightarrow>
          (let errorMessage = messageOr e ''Unknown error occurred'' error
           in (Inr (textResult (''Error: '' @ errorMessage)), evs)))"

subsection \<open>The specification's wording of two notions\<close>

text \<open>
  These definitions do not come from the code. They follow the words of the
  specification ("the pronunciation line", "all non-empty text values joined with a
  comma and a space", "the first line") and serve only to state properties of the
  definitions above.
\<close>

definition pronunciationLine :: "string \<Rightarrow> string" where
  "pronunciationLine s = ''**Pronunciation:** '' @ s @ newline @ newline"

definition nonEmptyTexts :: "PhoneticInfo list \<Rightarrow> string list" where
  "nonEmptyTexts ps = [t. Some t \<leftarrow> map text_of ps, t \<noteq> []]"

definition joinedTexts :: "WordEntry \<Rightarrow> string" where
  "joinedTexts entry =
     join '', '' (nonEmptyTexts (case phonetics entry of None \<Rightarrow> [] | Some ps \<Rightarrow> ps))"


subsection \<open>Test doubles\<close>

text \<open>An environment with no network: every request is rejected.\<close>

definition offline :: env where
  "offline =
     \<lparr>fetch = (\<lambda>url. Rejected (JsError ''fetch failed'')),
      Math_random = \<lparr>significand = 0, scale = 0\<rparr>,
      zodMessage = (\<lambda>issues. ''invalid arguments'')\<rparr>"

text \<open>An environment whose API answers every request with the response \<open>r\<close>.\<close>

definition respond :: "Response \<Rightarrow> env" where
  "respond r =
     \<lparr>fetch = (\<lambda>url. Resolved r),
      Math_random = \<lparr>significand = 1, scale = 1\<rparr>,
      zodMessage = (\<lambda>issues. ''invalid arguments'')\<rparr>"

definition lookup :: "string \<Rightarrow> json" where
  "lookup w = JObj [(''word'', JStr w)]"

text \<open>A 404 whose body does not decode, an empty result, and a server error.\<close>

definition notFoundResponse :: Response where
  "notFoundResponse =
     \<lparr>status = 404, statusText = ''Not Found'',
      json = Inl (JsError ''Unexpected end of JSON input'')\<rparr>"

definition emptyResponse :: Response where
  "emptyResponse = \<lparr>status = 200, statusText = ''OK'', json = Inr (JsonArray [])\<rparr>"

definition serverError :: Response where
  "serverError =
     \<lparr>status = 500, statusText = ''Internal Server Error'', json = Inr JsonNull\<rparr>"

text \<open>
  Three entries: one whose \<^verbatim>\<open>phonetic\<close> is the empty string, one with no
  \<^verbatim>\<open>phonetics\<close> field, one whose word holds a line break; and a 200 response carrying
  given entries.
\<close>

definition emptyPhonetic :: WordEntry where
  "emptyPhonetic =
     \<lparr>word = ''a'', phonetic = Some [],
      phonetics = Some [\<lparr>text_of = Some ''/ei/'', audio = None\<rparr>],
      origin = None, meanings = []\<rparr>"

definition noPhonetics :: WordEntry where
  "noPhonetics =
     \<lparr>word = ''a'', phonetic = Some ''/ei/'', phonetics = None, origin = None, meanings = []\<rparr>"


definition entriesResponse :: "WordEntry list \<Rightarrow> Response" where
  "entriesResponse es = \<lparr>status = 200, statusText = ''OK'', json = Inr (JsonArray es)\<rparr>"

text \<open>
  A double in [0, 1) whose product with 15 rounds up to 8, and an environment whose
  random source delivers it.
\<close>

definition roundsUp :: double where
  "roundsUp = \<lparr>significand = 4803839602528529, scale = 53\<rparr>"

definition roundsUpEnv :: env where
  "roundsUpEnv =
     \<lparr>fetch = (\<lambda>url. Resolved emptyResponse),
      Math_random = roundsUp,
      zodMessage = (\<lambda>issues. ''invalid arguments'')\<rparr>"

section \<open>Properties\<close>

subsection \<open>What the handlers throw\<close>

lemma GetDefinitionArgsSchema_parse_throws:
  "GetDefinitionArgsSchema_parse args = Inl t \<Longrightarrow> \<exists>issues. t = ZodError issues"
  by (cases args) (auto split: sum.splits)

lemma GetRandomWordArgsSchema_parse_throws:
  "GetRandomWordArgsSchema_parse args = Inl t \<Longrightarrow> \<exists>issues. t = ZodError issues"
  by (cases args) (auto split: sum.splits)

lemma getWordDefinition_invalid:
  "GetDefinitionArgsSchema_parse args = Inl t \<Longrightarrow> getWordDefinition e args = (Inl t, [])"
  by (simp add: getWordDefinition_def)

lemma getWordDefinition_parsed:
  "GetDefinitionArgsSchema_parse args = Inr (w, l) \<Longrightarrow>
   getWordDefinition e args =
     (case fetchDefinition e w (orDefault ''en'' l) of
        (Inl error, evs) \<Rightarrow>
          (Inl (JsError (''Failed to fetch definition for '' @ dquote @ w @ dquote
                         @ '': '' @ messageOr e ''Unknown error'' error)), evs)
      | (Inr r, evs) \<Rightarrow> (Inr r, evs))"
  by (simp add: getWordDefinition_def)

lemma getWordDefinition_throws:
  "fst (getWordDefinition e args) = Inl t \<Longrightarrow> \<exists>m. message e t = Some m"
proof (cases "GetDefinitionArgsSchema_parse args")
  case (Inl err)
  assume "fst (getWordDefinition e args) = Inl t"
  with Inl have "t = err" by (simp add: getWordDefinition_invalid)
  with Inl GetDefinitionArgsSchema_parse_throws show ?thesis by fastforce
next
  case (Inr p)
  assume t: "fst (getWordDefinition e args) = Inl t"
  obtain w l where "p = (w, l)" by (cases p)
  with Inr t show ?thesis
    by (auto simp: getWordDefinition_parsed split: prod.splits sum.splits)
qed

lemma getRandomWord_throws:
  "fst (getRandomWord e args) = Inl t \<Longrightarrow> \<exists>m. message e t = Some m"
proof (cases "GetRandomWordArgsSchema_parse args")
  case (Inl err)
  assume "fst (getRandomWord e args) = Inl t"
  with Inl have "t = err" by (simp add: getRandomWord_def)
  with Inl GetRandomWordArgsSchema_parse_throws show ?thesis by fastforce
next
  case (Inr d)
  assume "fst (getRandomWord e args) = Inl t"
  with Inr show ?thesis
    by (simp add: getRandomWord_def Let_def getWordDefinition_throws)
qed

lemma invokeTool_throws:
  "fst (invokeTool e name args) = Inl t \<Longrightarrow> \<exists>m. message e t = Some m"
  by (auto simp: invokeTool_def getWordDefinition_throws getRandomWord_throws split: if_splits)

subsection \<open>The outcomes of the request\<close>

lemma fetchDefinition_404:
  "fetch e (apiUrl language w) = Resolved r \<Longrightarrow> status r = 404 \<Longrightarrow>
   fetchDefinition e w language = (Inr (textResult (notFound404 w)), [HttpGet (apiUrl language w)])"
  by (simp add: fetchDefinition_def ok_def)

lemma fetchDefinition_status:
  "fetch e (apiUrl language w) = Resolved r \<Longrightarrow> \<not> ok r \<Longrightarrow> status r \<noteq> 404 \<Longrightarrow>
   fetchDefinition e w language =
     (Inl (JsError (''Dictionary API error: '' @ toString (status r) @ '' '' @ statusText r)),
      [HttpGet (apiUrl language w)])"
  by (simp add: fetchDefinition_def)

lemma fetchDefinition_empty:
  "fetch e (apiUrl language w) = Resolved r \<Longrightarrow> ok r \<Longrightarrow> json r = Inr (JsonArray []) \<Longrightarrow>
   fetchDefinition e w language =
     (Inr (textResult (notFoundEmpty w)), [HttpGet (apiUrl language w), ReadJson])"
  by (simp add: fetchDefinition_def)

lemma fetchDefinition_entry:
  "fetch e (apiUrl language w) = Resolved r \<Longrightarrow> ok r \<Longrightarrow>
   json r = Inr (JsonArray (entry # others)) \<Longrightarrow>
   fetchDefinition e w language =
     (case formatEntry entry of
        Inl err \<Rightarrow> (Inl err, [HttpGet (apiUrl language w), ReadJson])
      | Inr result \<Rightarrow> (Inr (textResult result), [HttpGet (apiUrl language w), ReadJson]))"
  by (simp add: fetchDefinition_def Let_def)

lemma lookup_parse: "w \<noteq> [] \<Longrightarrow> GetDefinitionArgsSchema_parse (lookup w) = Inr (w, None)"
  by (simp add: lookup_def)

subsection \<open>The formatted entry\<close>

lemma truthy_texts:
  "map (\<lambda>p. templ (text_of p)) (filter (\<lambda>p. truthy (text_of p)) ps) = nonEmptyTexts ps"
proof (induction ps)
  case Nil
  show ?case by (simp add: nonEmptyTexts_def)
next
  case (Cons p ps)
  then show ?case by (cases "text_of p") (simp_all add: nonEmptyTexts_def)
qed

lemma formatEntry_present:
  "phonetics entry = Some ps \<Longrightarrow>
   formatEntry entry =
     Inr (''**'' @ word entry @ ''**'' @ newline @ newline @ pronunciation entry
          @ originLine entry @ ''**Meanings:**'' @ newline @ newline
          @ concat (map formatMeaning (enumerate 0 (meanings entry)))
          @ formatAudio (map (\<lambda>p. templ (audio p)) (filter (\<lambda>p. truthy (audio p)) ps)))"
  by (simp add: formatEntry_def Let_def)

lemma formatEntry_absent:
  "phonetics entry = None \<Longrightarrow> formatEntry entry = Inl (readOfUndefined ''filter'')"
  by (simp add: formatEntry_def Let_def)

subsection \<open>A response with entries\<close>

lemma getWordDefinition_entry:
  assumes "GetDefinitionArgsSchema_parse args = Inr (w, l)"
    and "fetch e (apiUrl (orDefault ''en'' l) w) = Resolved r" and "ok r"
    and "json r = Inr (JsonArray (entry # others))"
  shows "getWordDefinition e args =
     (case formatEntry entry of
        Inl err \<Rightarrow>
          (Inl (JsError (''Failed to fetch definition for '' @ dquote @ w @ dquote
                         @ '': '' @ messageOr e ''Unknown error'' err)),
           [HttpGet (apiUrl (orDefault ''en'' l) w), ReadJson])
      | Inr result \<Rightarrow>
          (Inr (textResult result), [HttpGet (apiUrl (orDefault ''en'' l) w), ReadJson]))"
  using assms
  by (simp add: getWordDefinition_parsed fetchDefinition_entry split: sum.splits)

lemma textResult_inject: "(textResult a = textResult b) = (a = b)"
  by (simp add: textResult_def)



subsection \<open>The dispatch boundary\<close>

text \<open>
  C1. For every tool name and every argument value the handler returns a result to the
  protocol layer (it lets no exception through): the result of the invoked operation
  when that returns one, and whenever the invoked operation throws, the thrown value has
  a message and the returned result has as its content exactly one text item, whose text
  is "Error: " followed by exactly that message.
\<close>

theorem callTool_always_returns:
  "(\<exists>r. fst (callTool e name args) = Inr r)
   \<and> (\<forall>r. fst (invokeTool e name args) = Inr r \<longrightarrow> fst (callTool e name args) = Inr r)
   \<and> (\<forall>t. fst (invokeTool e name args) = Inl t \<longrightarrow>
        (\<exists>m. message e t = Some m
             \<and> fst (callTool e name args)
                 = Inr \<lparr>content = [TextContent (''Error: '' @ m)]\<rparr>))"
proof (cases "invokeTool e name args")
  case (Pair res evs)
  show ?thesis
  proof (cases res)
    case (Inl t)
    with Pair have "fst (invokeTool e name args) = Inl t" by simp
    then obtain m where "message e t = Some m" using invokeTool_throws by blast
    with Pair Inl show ?thesis by (simp add: callTool_def messageOr_def textResult_def)
  next
    case (Inr r)
    with Pair show ?thesis by (simp add: callTool_def)
  qed
qed

theorem callTool_always_returns_witness:
  "fst (invokeTool offline ''translate'' JUndefined) = Inl (JsError ''Unknown tool: translate'')
   \<and> fst (callTool offline ''translate'' JUndefined)
       = Inr \<lparr>content = [TextContent ''Error: Unknown tool: translate'']\<rparr>"
proof -
  have thrown: "fst (invokeTool offline ''translate'' JUndefined)
                  = Inl (JsError ''Unknown tool: translate'')"
    by (simp add: invokeTool_def)
  from callTool_always_returns [of offline "''translate''" JUndefined] thrown
  have "\<exists>m. message offline (JsError ''Unknown tool: translate'') = Some m
            \<and> fst (callTool offline ''translate'' JUndefined)
                = Inr \<lparr>content = [TextContent (''Error: '' @ m)]\<rparr>"
    by blast
  with thrown show ?thesis by auto
qed

subsection \<open>Words that are not found\<close>

text \<open>
  C2, as stated, fails: for the word "zzz" the result on a 404 response and the result
  on a 2xx response with an empty array are different values, so a caller can tell the
  two cases apart.
\<close>

theorem not_found_texts_differ_counterexample:
  "fst (getWordDefinition (respond notFoundResponse) (lookup ''zzz''))
   \<noteq> fst (getWordDefinition (respond emptyResponse) (lookup ''zzz''))"
  by (simp add: getWordDefinition_parsed lookup_parse fetchDefinition_404 fetchDefinition_empty
      respond_def notFoundResponse_def emptyResponse_def ok_def textResult_def
      notFound404_def notFoundEmpty_def)

text \<open>
  C2, amended. For every word w, a 404 response and a 2xx response whose body is an
  empty array both give a normal (returned, not thrown) result whose text begins with
  \<^verbatim>\<open>No definition found for "w".\<close> and never with "Error:"; on the empty array that is
  the whole text, on a 404 the text goes on with " Please check the spelling or try a
  different word.".
\<close>

theorem not_found_texts:
  assumes "GetDefinitionArgsSchema_parse args = Inr (w, l)"
    and "fetch e1 (apiUrl (orDefault ''en'' l) w) = Resolved r1" and "status r1 = 404"
    and "fetch e2 (apiUrl (orDefault ''en'' l) w) = Resolved r2" and "ok r2"
    and "json r2 = Inr (JsonArray [])"
  shows "fst (getWordDefinition e1 args)
           = Inr (textResult (''No definition found for '' @ dquote @ w @ dquote @ ''.''
                              @ '' Please check the spelling or try a different word.''))
         \<and> fst (getWordDefinition e2 args)
           = Inr (textResult (''No definition found for '' @ dquote @ w @ dquote @ ''.''))
         \<and> \<not> prefix ''Error:'' (''No definition found for '' @ dquote @ w @ dquote @ ''.''
                              @ '' Please check the spelling or try a different word.'')
         \<and> \<not> prefix ''Error:'' (''No definition found for '' @ dquote @ w @ dquote @ ''.'')"
  using assms
  by (simp add: getWordDefinition_parsed fetchDefinition_404 fetchDefinition_empty
      notFound404_def notFoundEmpty_def)

theorem not_found_texts_witness:
  "fst (getWordDefinition (respond notFoundResponse) (lookup ''zzz''))
     = Inr (textResult (''No definition found for '' @ dquote @ ''zzz'' @ dquote @ ''.''
                        @ '' Please check the spelling or try a different word.''))
   \<and> fst (getWordDefinition (respond emptyResponse) (lookup ''zzz''))
     = Inr (textResult (''No definition found for '' @ dquote @ ''zzz'' @ dquote @ ''.''))"
proof -
  have p: "GetDefinitionArgsSchema_parse (lookup ''zzz'') = Inr (''zzz'', None)"
    by (simp add: lookup_def)
  have f1: "fetch (respond notFoundResponse) (apiUrl (orDefault ''en'' None) ''zzz'')
              = Resolved notFoundResponse"
    by (simp add: respond_def)
  have s1: "status notFoundResponse = 404" by (simp add: notFoundResponse_def)
  have f2: "fetch (respond emptyResponse) (apiUrl (orDefault ''en'' None) ''zzz'')
              = Resolved emptyResponse"
    by (simp add: respond_def)
  have o2: "ok emptyResponse" by (simp add: emptyResponse_def ok_def)
  have j2: "json emptyResponse = Inr (JsonArray [])" by (simp add: emptyResponse_def)
  from not_found_texts [OF p f1 s1 f2 o2 j2] show ?thesis by blast
qed

subsection \<open>Other HTTP failures\<close>

text \<open>
  C3, as stated, fails: on a 500 response the text returned to the caller is not
  "Error: Dictionary API error: 500 Internal Server Error".
\<close>

theorem api_error_text_counterexample:
  "fst (callTool (respond serverError) ''get_word_definition'' (lookup ''zzz''))
   \<noteq> Inr (textResult ''Error: Dictionary API error: 500 Internal Server Error'')"
  by (simp add: callTool_def invokeTool_def getWordDefinition_parsed lookup_parse
      fetchDefinition_status respond_def serverError_def ok_def textResult_def messageOr_def)

text \<open>
  C3, amended. For every word w, when the GET completes with a non-2xx status other than
  404, the operation throws (after that one request, without reading the body) an
  \<^verbatim>\<open>Error\<close> whose message is
  \<^verbatim>\<open>Failed to fetch definition for "w": Dictionary API error: {status} {statusText}\<close>,
  the inner error being wrapped by the \<^verbatim>\<open>catch\<close> of the operation, and the caller
  receives the text "Error: " followed by that message.
\<close>

theorem api_error_surfaced:
  assumes "GetDefinitionArgsSchema_parse args = Inr (w, l)"
    and "fetch e (apiUrl (orDefault ''en'' l) w) = Resolved r"
    and "\<not> ok r" and "status r \<noteq> 404"
  shows "fst (getWordDefinition e args)
           = Inl (JsError (''Failed to fetch definition for '' @ dquote @ w @ dquote @ '': ''
                           @ ''Dictionary API error: '' @ toString (status r) @ '' ''
                           @ statusText r))
         \<and> fst (callTool e ''get_word_definition'' args)
           = Inr (textResult (''Error: Failed to fetch definition for '' @ dquote @ w @ dquote
                              @ '': '' @ ''Dictionary API error: '' @ toString (status r)
                              @ '' '' @ statusText r))
         \<and> snd (getWordDefinition e args) = [HttpGet (apiUrl (orDefault ''en'' l) w)]"
  using assms
  by (simp add: callTool_def invokeTool_def getWordDefinition_parsed fetchDefinition_status
      messageOr_def)

theorem api_error_surfaced_witness:
  "fst (callTool (respond serverError) ''get_word_definition'' (lookup ''zzz''))
     = Inr (textResult (''Error: Failed to fetch definition for '' @ dquote @ ''zzz'' @ dquote
                        @ '': Dictionary API error: 500 Internal Server Error''))"
proof -
  have p: "GetDefinitionArgsSchema_parse (lookup ''zzz'') = Inr (''zzz'', None)"
    by (simp add: lookup_def)
  have f: "fetch (respond serverError) (apiUrl (orDefault ''en'' None) ''zzz'')
             = Resolved serverError"
    by (simp add: respond_def)
  have n: "\<not> ok serverError" by (simp add: serverError_def ok_def)
  have s: "status serverError \<noteq> 404" by (simp add: serverError_def)
  have t: "toString (status serverError) = ''500''"
    by (simp add: serverError_def toString.simps digit_def)
  have st: "statusText serverError = ''Internal Server Error''" by (simp add: serverError_def)
  from api_error_surfaced [OF p f n s] show ?thesis by (simp add: t st)
qed


subsection \<open>The double product\<close>

lemma bitLength_less: "p < 2 ^ bitLength p"
proof (induction p rule: bitLength.induct)
  case (1 p)
  show ?case
  proof (cases "p = 0")
    case True
    then show ?thesis by (simp add: bitLength.simps)
  next
    case False
    with 1 have "p div 2 < 2 ^ bitLength (p div 2)" by simp
    then have "p < 2 * 2 ^ bitLength (p div 2)" by linarith
    with False show ?thesis by (simp add: bitLength.simps [of p])
  qed
qed

lemma bitLength_ge: "0 < p \<Longrightarrow> 2 ^ (bitLength p - 1) \<le> p"
proof (induction p rule: bitLength.induct)
  case (1 p)
  then have p: "p \<noteq> 0" by simp
  show ?case
  proof (cases "p div 2 = 0")
    case True
    with p show ?thesis by (simp add: bitLength.simps [of p] bitLength.simps [of 0])
  next
    case False
    with 1 p have ih: "2 ^ (bitLength (p div 2) - 1) \<le> p div 2" by simp
    from False have "bitLength (p div 2) \<noteq> 0" by (simp add: bitLength.simps [of "p div 2"])
    then obtain k where k: "bitLength (p div 2) = Suc k" by (cases "bitLength (p div 2)") auto
    with ih have "2 * 2 ^ k \<le> 2 * (p div 2)" by simp
    also have "\<dots> \<le> p" by simp
    finally show ?thesis using p k by (simp add: bitLength.simps [of p])
  qed
qed

lemma bitLength_le: "p < 2 ^ k \<Longrightarrow> bitLength p \<le> k"
proof (rule ccontr)
  assume p: "p < 2 ^ k" and "\<not> bitLength p \<le> k"
  then have k: "k \<le> bitLength p - 1" and pos: "0 < p"
    by (auto simp: bitLength.simps [of 0] intro: gr0I)
  from k have "(2::nat) ^ k \<le> 2 ^ (bitLength p - 1)" by (rule power_increasing) simp
  also from pos have "\<dots> \<le> p" by (rule bitLength_ge)
  finally show False using p by simp
qed

lemma roundTiesToEven_lower: "(p div 2 ^ s) * 2 ^ s \<le> roundTiesToEven p s"
  by (simp add: roundTiesToEven_def Let_def)

lemma roundTiesToEven_upper: "roundTiesToEven p s \<le> (p div 2 ^ s + 1) * 2 ^ s"
  by (simp add: roundTiesToEven_def Let_def)

lemma roundTiesToEven_error: "2 * roundTiesToEven p s \<le> 2 * p + 2 ^ s"
proof -
  have p: "p = (p div 2 ^ s) * 2 ^ s + p mod 2 ^ s"
    by (rule div_mult_mod_eq [symmetric])
  show ?thesis
  proof (cases "2 * (p mod 2 ^ s) < 2 ^ s \<or> (2 * (p mod 2 ^ s) = 2 ^ s \<and> even (p div 2 ^ s))")
    case True
    then have "roundTiesToEven p s = (p div 2 ^ s) * 2 ^ s"
      by (simp add: roundTiesToEven_def Let_def)
    with p show ?thesis by linarith
  next
    case False
    then have r: "roundTiesToEven p s = (p div 2 ^ s) * 2 ^ s + 2 ^ s"
      by (simp add: roundTiesToEven_def Let_def)
    from False have "2 ^ s \<le> 2 * (p mod 2 ^ s)" by linarith
    with p r show ?thesis by linarith
  qed
qed

lemma roundTiesToEven_exact: "2 ^ s dvd p \<Longrightarrow> roundTiesToEven p s = p"
  by (auto simp: roundTiesToEven_def Let_def)


lemma excess_bits: "0 < bitLength p - 53 \<Longrightarrow> 2 ^ (52 + (bitLength p - 53)) \<le> p"
proof -
  assume s: "0 < bitLength p - 53"
  then have "0 < p" by (auto simp: bitLength.simps [of 0] intro: gr0I)
  then have ge: "2 ^ (bitLength p - 1) \<le> p" by (rule bitLength_ge)
  from s have "52 + (bitLength p - 53) = bitLength p - 1" by linarith
  then show ?thesis using ge by (simp only:)
qed

lemma timesNumerator_less:
  assumes "significand x < 2 ^ 53" and "significand x < 2 ^ scale x" and "0 < n"
  shows "timesNumerator x n < n * 2 ^ scale x"
proof -
  define m where "m = significand x"
  define p where "p = m * n"
  define s where "s = bitLength p - 53"
  have t: "timesNumerator x n = roundTiesToEven p s"
    by (simp add: timesNumerator_def Let_def p_def s_def m_def)
  have small: "2 ^ s < 2 * n"
  proof (cases "s = 0")
    case True
    with assms(3) show ?thesis by simp
  next
    case False
    then have "2 ^ (52 + s) \<le> p" unfolding s_def using excess_bits by simp
    also have "p < 2 ^ 53 * n"
      unfolding p_def using assms(1) assms(3) by (simp add: m_def)
    finally have "(2::nat) ^ 52 * 2 ^ s < 2 ^ 52 * (2 * n)" by (simp add: power_add)
    then show ?thesis by (simp only: mult_less_cancel1)
  qed
  have "m + 1 \<le> 2 ^ scale x" using assms(2) by (simp add: m_def)
  then have "(m + 1) * n \<le> 2 ^ scale x * n" by (rule mult_le_mono1)
  then have bound: "2 * p + 2 * n \<le> 2 * (n * 2 ^ scale x)"
    by (simp add: p_def algebra_simps)
  have "2 * roundTiesToEven p s \<le> 2 * p + 2 ^ s" by (rule roundTiesToEven_error)
  with small bound have "2 * roundTiesToEven p s < 2 * (n * 2 ^ scale x)" by linarith
  with t show ?thesis by simp
qed

lemma excess_below_scale:
  assumes "significand x < 2 ^ scale x" and "n \<le> 2 ^ 52"
  shows "bitLength (significand x * n) - 53 \<le> scale x"
proof (cases "bitLength (significand x * n) - 53 = 0")
  case True
  then show ?thesis by simp
next
  case False
  define s where "s = bitLength (significand x * n) - 53"
  from False have "2 ^ (52 + s) \<le> significand x * n"
    unfolding s_def using excess_bits by simp
  also have "\<dots> \<le> significand x * 2 ^ 52" using assms(2) by simp
  also have "\<dots> < 2 ^ scale x * 2 ^ 52" using assms(1) by simp
  finally have "(2::nat) ^ 52 * 2 ^ s < 2 ^ 52 * 2 ^ scale x"
    by (simp add: power_add mult.commute)
  then have "(2::nat) ^ s < 2 ^ scale x" by (simp only: mult_less_cancel1)
  then have "s < scale x" by (simp add: power_strict_increasing_iff)
  then show ?thesis by (simp add: s_def)
qed

lemma timesNumerator_bounds:
  assumes "significand x < 2 ^ scale x" and "n \<le> 2 ^ 52"
  shows "(significand x * n div 2 ^ scale x) * 2 ^ scale x \<le> timesNumerator x n
         \<and> timesNumerator x n \<le> (significand x * n div 2 ^ scale x + 1) * 2 ^ scale x"
proof -
  define p where "p = significand x * n"
  define s where "s = bitLength p - 53"
  define q where "q = scale x"
  define J where "J = p div 2 ^ q"
  have t: "timesNumerator x n = roundTiesToEven p s"
    by (simp add: timesNumerator_def Let_def p_def s_def)
  have "s \<le> q" unfolding s_def p_def q_def using assms by (rule excess_below_scale)
  then obtain d where d: "q = s + d" using le_Suc_ex by blast
  have pw: "(2::nat) ^ q = 2 ^ d * 2 ^ s" by (simp add: d power_add)
  have "J * 2 ^ q \<le> p" by (simp add: J_def)
  then have "(J * 2 ^ d) * 2 ^ s \<le> p" by (simp only: pw mult.assoc)
  then have "J * 2 ^ d \<le> p div 2 ^ s" by (simp add: less_eq_div_iff_mult_less_eq)
  then have "(J * 2 ^ d) * 2 ^ s \<le> (p div 2 ^ s) * 2 ^ s" by (rule mult_le_mono1)
  also have "\<dots> \<le> roundTiesToEven p s" by (rule roundTiesToEven_lower)
  finally have lower: "J * 2 ^ q \<le> roundTiesToEven p s" by (simp only: pw mult.assoc)
  have "p < 2 ^ q + J * 2 ^ q" unfolding J_def by (rule dividend_less_div_times) simp
  then have "p < ((J + 1) * 2 ^ d) * 2 ^ s" by (simp add: pw algebra_simps)
  then have "p div 2 ^ s < (J + 1) * 2 ^ d" by (rule less_mult_imp_div_less)
  then have "p div 2 ^ s + 1 \<le> (J + 1) * 2 ^ d" by simp
  then have "(p div 2 ^ s + 1) * 2 ^ s \<le> ((J + 1) * 2 ^ d) * 2 ^ s" by (rule mult_le_mono1)
  with roundTiesToEven_upper [of p s]
  have "roundTiesToEven p s \<le> ((J + 1) * 2 ^ d) * 2 ^ s" by (rule le_trans)
  then have upper: "roundTiesToEven p s \<le> (J + 1) * 2 ^ q" by (simp only: pw mult.assoc)
  from lower upper show ?thesis by (simp add: t J_def p_def q_def)
qed

lemma timesNumerator_16:
  assumes "significand x < 2 ^ 53"
  shows "timesNumerator x 16 = significand x * 16"
proof -
  define p where "p = significand x * 16"
  from assms have "p < 2 ^ 57" by (simp add: p_def)
  then have "bitLength p \<le> 57" by (rule bitLength_le)
  then have "bitLength p - 53 \<le> 4" by simp
  then have "(2::nat) ^ (bitLength p - 53) dvd 2 ^ 4" by (rule le_imp_power_dvd)
  moreover have "(2::nat) ^ 4 dvd p" by (simp add: p_def)
  ultimately have "2 ^ (bitLength p - 53) dvd p" by (rule dvd_trans)
  then have "roundTiesToEven p (bitLength p - 53) = p" by (rule roundTiesToEven_exact)
  then show ?thesis by (simp add: timesNumerator_def Let_def p_def)
qed

lemma floor_valueOf: "\<lfloor>valueOf x * of_nat n\<rfloor> = int (significand x * n div 2 ^ scale x)"
proof -
  have "valueOf x * of_nat n = of_nat (significand x * n) / of_nat (2 ^ scale x)"
    by (simp add: valueOf_def)
  then show ?thesis by (simp only: floor_divide_of_nat_eq)
qed

lemma randomIndex_range:
  assumes "inUnitInterval (Math_random e)" and "0 < n"
  shows "\<exists>i<n. randomIndex e n = int i"
proof -
  from assms have "timesNumerator (Math_random e) n < n * 2 ^ scale (Math_random e)"
    by (simp add: inUnitInterval_def isDouble_def timesNumerator_less)
  then have "timesNumerator (Math_random e) n div 2 ^ scale (Math_random e) < n"
    by (rule less_mult_imp_div_less)
  then show ?thesis by (auto simp: randomIndex_def)
qed

lemma randomIndex_floor:
  assumes "inUnitInterval (Math_random e)" and "n \<le> 2 ^ 52"
  shows "\<lfloor>valueOf (Math_random e) * of_nat n\<rfloor> \<le> randomIndex e n
         \<and> randomIndex e n \<le> \<lfloor>valueOf (Math_random e) * of_nat n\<rfloor> + 1"
proof -
  define x where "x = Math_random e"
  define J where "J = significand x * n div 2 ^ scale x"
  from assms(1) have a: "significand x < 2 ^ scale x" by (simp add: inUnitInterval_def x_def)
  from timesNumerator_bounds [OF a assms(2)]
  have lo: "J * 2 ^ scale x \<le> timesNumerator x n"
    and hi: "timesNumerator x n \<le> (J + 1) * 2 ^ scale x"
    unfolding J_def by simp_all
  from lo have "J * 2 ^ scale x div 2 ^ scale x \<le> timesNumerator x n div 2 ^ scale x"
    by (rule div_le_mono)
  then have lower: "J \<le> timesNumerator x n div 2 ^ scale x" by simp
  from hi have "timesNumerator x n div 2 ^ scale x \<le> (J + 1) * 2 ^ scale x div 2 ^ scale x"
    by (rule div_le_mono)
  then have "timesNumerator x n div 2 ^ scale x \<le> J + 1" by simp
  with lower show ?thesis
    by (simp add: randomIndex_def floor_valueOf x_def J_def)
qed

lemma randomIndex_16:
  assumes "inUnitInterval (Math_random e)"
  shows "(randomIndex e 16 = int j)
         = (of_nat j / 16 \<le> valueOf (Math_random e) \<and> valueOf (Math_random e) < of_nat (j + 1) / 16)"
proof -
  from assms have "randomIndex e 16 = \<lfloor>valueOf (Math_random e) * of_nat 16\<rfloor>"
    by (simp only: randomIndex_def floor_valueOf)
       (simp add: inUnitInterval_def isDouble_def timesNumerator_16)
  then have "(randomIndex e 16 = int j)
      = (of_nat j \<le> valueOf (Math_random e) * 16 \<and> valueOf (Math_random e) * 16 < of_nat j + 1)"
    by (simp add: floor_eq_iff)
  also have "\<dots> = (of_nat j / 16 \<le> valueOf (Math_random e)
                     \<and> valueOf (Math_random e) < of_nat (j + 1) / 16)"
    by (simp add: pos_divide_le_eq pos_less_divide_eq add.commute)
  finally show ?thesis .
qed

lemma timesNumerator_relative:
  "2 ^ 53 * timesNumerator x n \<le> (2 ^ 53 + 1) * (significand x * n)"
proof -
  define p where "p = significand x * n"
  define s where "s = bitLength p - 53"
  have t: "timesNumerator x n = roundTiesToEven p s"
    by (simp add: timesNumerator_def Let_def p_def s_def)
  show ?thesis
  proof (cases "s = 0")
    case True
    then have "roundTiesToEven p s = p" by (simp add: roundTiesToEven_exact)
    with t show ?thesis by (simp add: p_def)
  next
    case False
    then have "2 ^ (52 + s) \<le> p" unfolding s_def using excess_bits by simp
    then have half: "2 ^ 53 * 2 ^ s \<le> 2 * p" by (simp add: power_add)
    have "2 * roundTiesToEven p s \<le> 2 * p + 2 ^ s" by (rule roundTiesToEven_error)
    then have "2 ^ 53 * (2 * roundTiesToEven p s) \<le> 2 ^ 53 * (2 * p + 2 ^ s)"
      by (rule mult_le_mono2)
    also have "\<dots> = 2 ^ 53 * (2 * p) + 2 ^ 53 * 2 ^ s" by (rule distrib_left)
    also have "\<dots> \<le> 2 ^ 53 * (2 * p) + 2 * p" using half by (rule add_left_mono)
    finally have "2 * (2 ^ 53 * roundTiesToEven p s) \<le> 2 * ((2 ^ 53 + 1) * p)"
      by (simp add: algebra_simps)
    then have "2 ^ 53 * roundTiesToEven p s \<le> (2 ^ 53 + 1) * p"
      by simp
    with t show ?thesis by (simp only: p_def)
  qed
qed

lemma randomIndex_share:
  assumes "inUnitInterval (Math_random e)" and "0 < n" and "n \<le> 2 ^ 52"
  shows "(of_nat j / of_nat n \<le> valueOf (Math_random e)
          \<and> valueOf (Math_random e) * (1 + 1 / 2 ^ 53) < of_nat (j + 1) / of_nat n
          \<longrightarrow> randomIndex e n = int j)
       \<and> (randomIndex e n = int j
          \<longrightarrow> of_nat j / of_nat n \<le> valueOf (Math_random e) * (1 + 1 / 2 ^ 53)
              \<and> valueOf (Math_random e) < of_nat (j + 1) / of_nat n)"
proof -
  define x where "x = Math_random e"
  define r where "r = valueOf x"
  define T where "T = timesNumerator x n"
  define Q where "Q = (2::nat) ^ scale x"
  define p where "p = significand x * n"
  have Qpos: "(0::rat) < of_nat Q" by (simp add: Q_def)
  have npos: "(0::rat) < of_nat n" using assms(2) by simp
  have rn: "r * of_nat n = of_nat p / of_nat Q"
    by (simp add: r_def valueOf_def p_def Q_def)
  have idx: "randomIndex e n = int (T div Q)"
    by (simp add: randomIndex_def T_def Q_def x_def)
  from randomIndex_floor [OF assms(1) assms(3)]
  have fl: "\<lfloor>r * of_nat n\<rfloor> \<le> int (T div Q)" by (simp add: idx r_def x_def)
  have "2 ^ 53 * T \<le> (2 ^ 53 + 1) * p"
    unfolding T_def p_def by (rule timesNumerator_relative)
  then have "(of_nat (2 ^ 53 * T) :: rat) \<le> of_nat ((2 ^ 53 + 1) * p)"
    by (simp only: of_nat_le_iff)
  then have "(2 ^ 53 :: rat) * of_nat T \<le> (2 ^ 53 + 1) * of_nat p" by simp
  then have rel: "(of_nat T :: rat) \<le> (1 + 1 / 2 ^ 53) * of_nat p"
    by (simp add: field_simps)
  have up: "(of_nat T :: rat) \<le> r * (1 + 1 / 2 ^ 53) * of_nat n * of_nat Q"
  proof -
    have "of_nat p = r * of_nat n * (of_nat Q :: rat)" using Qpos by (simp add: rn)
    with rel show ?thesis by (simp add: mult_ac)
  qed
  have fwd: "of_nat j / of_nat n \<le> r \<and> r * (1 + 1 / 2 ^ 53) < of_nat (j + 1) / of_nat n
             \<longrightarrow> int (T div Q) = int j"
  proof
    assume a: "of_nat j / of_nat n \<le> r \<and> r * (1 + 1 / 2 ^ 53) < of_nat (j + 1) / of_nat n"
    then have "of_nat j \<le> r * of_nat n" using npos by (simp add: pos_divide_le_eq)
    then have "int j \<le> \<lfloor>r * of_nat n\<rfloor>" by (simp add: le_floor_iff)
    with fl have lower: "j \<le> T div Q" by linarith
    from a have "r * (1 + 1 / 2 ^ 53) * of_nat n < of_nat (j + 1)"
      using npos by (simp add: pos_less_divide_eq)
    then have "r * (1 + 1 / 2 ^ 53) * of_nat n * of_nat Q < of_nat (j + 1) * of_nat Q"
      using Qpos by (simp only: mult_less_cancel_right_pos)
    with up have "(of_nat T :: rat) < of_nat (j + 1) * of_nat Q" by (rule le_less_trans)
    then have "(of_nat T :: rat) < of_nat ((j + 1) * Q)" by (simp only: of_nat_mult)
    then have "T < (j + 1) * Q" by (simp only: of_nat_less_iff)
    then have "T div Q < j + 1" by (rule less_mult_imp_div_less)
    with lower show "int (T div Q) = int j" by simp
  qed
  have bwd: "int (T div Q) = int j
             \<longrightarrow> of_nat j / of_nat n \<le> r * (1 + 1 / 2 ^ 53) \<and> r < of_nat (j + 1) / of_nat n"
  proof
    assume "int (T div Q) = int j"
    then have j: "T div Q = j" by simp
    with fl have "\<lfloor>r * of_nat n\<rfloor> \<le> int j" by simp
    then have "r * of_nat n < of_nat j + 1" by (simp add: floor_le_iff)
    then have hi: "r < of_nat (j + 1) / of_nat n"
      using npos by (simp add: pos_less_divide_eq add.commute)
    have "j * Q \<le> T" unfolding j [symmetric] by simp
    then have "(of_nat (j * Q) :: rat) \<le> of_nat T" by (simp only: of_nat_le_iff)
    then have "of_nat j * of_nat Q \<le> (of_nat T :: rat)" by (simp only: of_nat_mult)
    from this up
    have "of_nat j * of_nat Q \<le> r * (1 + 1 / 2 ^ 53) * of_nat n * (of_nat Q :: rat)"
      by (rule order_trans)
    then have "of_nat j \<le> r * (1 + 1 / 2 ^ 53) * of_nat n"
      using Qpos by (simp only: mult_le_cancel_right_pos)
    then have "of_nat j / of_nat n \<le> r * (1 + 1 / 2 ^ 53)"
      using npos by (simp add: pos_divide_le_eq)
    with hi show "of_nat j / of_nat n \<le> r * (1 + 1 / 2 ^ 53) \<and> r < of_nat (j + 1) / of_nat n"
      by simp
  qed
  from fwd bwd show ?thesis by (simp only: idx r_def x_def)
qed

lemma bitLength_roundsUp: "bitLength 72057594037927935 = 56"
  by (simp add: bitLength.simps)

lemma randomIndex_roundsUp: "randomIndex roundsUpEnv 15 = 8"
  by (simp add: randomIndex_def roundsUpEnv_def roundsUp_def timesNumerator_def
      roundTiesToEven_def bitLength_roundsUp Let_def)

lemma length_hard: "length (wordLists Hard) = 15"
  by simp

subsection \<open>The random word\<close>

lemma parse_difficulty_name: "parse_difficulty (JStr (difficultyName t)) = Inr (Some t)"
  by (cases t) simp_all

lemma wordLists_length: "length (wordLists t) = (case t of Hard \<Rightarrow> 15 | _ \<Rightarrow> 16)"
  by (cases t) simp_all

text \<open>
  C4, as stated, fails at two inputs. A call with no argument object leaves the
  difficulty absent, yet no word of the medium list is selected: the schema rejects the
  call. And the selection is not the exact split of [0, 1) into equal shares: a random
  number inside [7/15, 8/15), the share of index 7 of the 15-word list, selects
  index 8, because the double product rounds up to 8.
\<close>

theorem getRandomWord_no_arguments_counterexample:
  "getRandomWord roundsUpEnv JUndefined
     = (Inl (ZodError [InvalidType [] ''object'' JUndefined]), [])
   \<and> inUnitInterval (Math_random roundsUpEnv)
   \<and> 7 / 15 \<le> valueOf (Math_random roundsUpEnv)
   \<and> valueOf (Math_random roundsUpEnv) < 8 / 15
   \<and> randomIndex roundsUpEnv (length (wordLists Hard)) = 8"
proof -
  have "getRandomWord roundsUpEnv JUndefined
          = (Inl (ZodError [InvalidType [] ''object'' JUndefined]), [])"
    by (simp add: getRandomWord_def)
  moreover have "inUnitInterval (Math_random roundsUpEnv)"
    by (simp add: roundsUpEnv_def roundsUp_def inUnitInterval_def isDouble_def)
  moreover have "7 / 15 \<le> valueOf (Math_random roundsUpEnv)"
    and "valueOf (Math_random roundsUpEnv) < 8 / 15"
    by (simp_all add: roundsUpEnv_def roundsUp_def valueOf_def)
  moreover have "randomIndex roundsUpEnv (length (wordLists Hard)) = 8"
    by (simp only: length_hard randomIndex_roundsUp)
  ultimately show ?thesis by blast
qed

text \<open>
  C4, amended. Let the argument object carry no difficulty (tier medium) or the name of
  a tier, and let the random source deliver a double r in [0, 1). The list of the tier
  has 16 words (15 for hard); the index \<^verbatim>\<open>Math.floor(r * n)\<close>, taken of the double
  product, is a position i of the list, so the selected word is a member of it; the
  index is the floor of the exact product or, when the double product rounds up to an
  integer, one more; index j is selected whenever j/n <= r and r (1 + 2^-53) < (j+1)/n,
  and only if j/n <= r (1 + 2^-53) and r < (j+1)/n, so the shares of the indices are
  the equal intervals [j/n, (j+1)/n) up to the relative rounding error 2^-53 at their
  lower ends; for the 16-word lists the product is exact and the index is j exactly
  when r lies in [j/16, (j+1)/16); and the operation is exactly
  \<open>getWordDefinition\<close> on the arguments word = the i-th word of the list,
  language = "en": same outcome, same requests.
\<close>

theorem getRandomWord_selects:
  assumes "inUnitInterval (Math_random e)"
    and "getProp kvs ''difficulty''
           = (case d of None \<Rightarrow> JUndefined | Some t \<Rightarrow> JStr (difficultyName t))"
  shows "let words = wordLists (orDefault Medium d); n = length words;
             r = valueOf (Math_random e)
         in n = (case orDefault Medium d of Hard \<Rightarrow> 15 | _ \<Rightarrow> 16)
           \<and> (\<exists>i<n. randomIndex e n = int i
                 \<and> words ! i \<in> set words
                 \<and> getRandomWord e (JObj kvs)
                     = getWordDefinition e
                         (JObj [(''word'', JStr (words ! i)), (''language'', JStr ''en'')]))
           \<and> \<lfloor>r * of_nat n\<rfloor> \<le> randomIndex e n
           \<and> randomIndex e n \<le> \<lfloor>r * of_nat n\<rfloor> + 1
           \<and> (\<forall>j<n. (of_nat j / of_nat n \<le> r
                        \<and> r * (1 + 1 / 2 ^ 53) < of_nat (j + 1) / of_nat n
                       \<longrightarrow> randomIndex e n = int j)
                    \<and> (randomIndex e n = int j
                       \<longrightarrow> of_nat j / of_nat n \<le> r * (1 + 1 / 2 ^ 53)
                           \<and> r < of_nat (j + 1) / of_nat n))
           \<and> (n = 16 \<longrightarrow>
                (\<forall>j<n. (randomIndex e n = int j)
                        = (of_nat j / of_nat n \<le> r \<and> r < of_nat (j + 1) / of_nat n)))"
proof -
  define words where "words = wordLists (orDefault Medium d)"
  define n where "n = length words"
  define r where "r = valueOf (Math_random e)"
  have len: "n = (case orDefault Medium d of Hard \<Rightarrow> 15 | _ \<Rightarrow> 16)"
    by (simp add: n_def words_def wordLists_length)
  then have pos: "0 < n" and small: "n \<le> 2 ^ 52" by (simp_all split: difficulty.splits)
  have parsed: "GetRandomWordArgsSchema_parse (JObj kvs) = Inr d"
  proof (cases d)
    case None
    with assms(2) show ?thesis by simp
  next
    case (Some t)
    with assms(2) show ?thesis
      by (simp add: parse_difficulty_name del: getProp.simps parse_difficulty.simps)
  qed
  from randomIndex_range [OF assms(1) pos]
  obtain i where i: "i < n" "randomIndex e n = int i" by blast
  from i have at: "at_index words (randomIndex e (length words)) = JStr (words ! i)"
    by (simp add: at_index_def n_def)
  have call: "getRandomWord e (JObj kvs)
              = getWordDefinition e
                  (JObj [(''word'', JStr (words ! i)), (''language'', JStr ''en'')])"
    using parsed at
    by (simp add: getRandomWord_def Let_def words_def del: GetRandomWordArgsSchema_parse.simps)
  from i have mem: "words ! i \<in> set words" by (simp add: n_def)
  from randomIndex_floor [OF assms(1) small]
  have fl: "\<lfloor>r * of_nat n\<rfloor> \<le> randomIndex e n"
    and fu: "randomIndex e n \<le> \<lfloor>r * of_nat n\<rfloor> + 1"
    by (simp_all add: r_def)
  have unif: "n = 16 \<longrightarrow>
                (\<forall>j<n. (randomIndex e n = int j)
                        = (of_nat j / of_nat n \<le> r \<and> r < of_nat (j + 1) / of_nat n))"
    using randomIndex_16 [OF assms(1)] by (simp add: r_def)
  have share: "\<forall>j<n. (of_nat j / of_nat n \<le> r
                        \<and> r * (1 + 1 / 2 ^ 53) < of_nat (j + 1) / of_nat n
                       \<longrightarrow> randomIndex e n = int j)
                    \<and> (randomIndex e n = int j
                       \<longrightarrow> of_nat j / of_nat n \<le> r * (1 + 1 / 2 ^ 53)
                           \<and> r < of_nat (j + 1) / of_nat n)"
    using randomIndex_share [OF assms(1) pos small] unfolding r_def by blast
  from len i mem call fl fu share unif show ?thesis
    unfolding Let_def words_def [symmetric] n_def [symmetric] r_def [symmetric] by blast
qed

theorem getRandomWord_selects_witness:
  "getRandomWord roundsUpEnv (JObj [(''difficulty'', JStr ''hard'')])
     = getWordDefinition roundsUpEnv
         (JObj [(''word'', JStr ''vicissitude''), (''language'', JStr ''en'')])"
proof -
  have u: "inUnitInterval (Math_random roundsUpEnv)"
    by (simp add: roundsUpEnv_def roundsUp_def inUnitInterval_def isDouble_def)
  have a: "getProp [(''difficulty'', JStr ''hard'')] ''difficulty''
             = (case Some Hard of None \<Rightarrow> JUndefined | Some t \<Rightarrow> JStr (difficultyName t))"
    by simp
  have ix: "randomIndex roundsUpEnv (length (wordLists Hard)) = 8"
    by (simp only: length_hard randomIndex_roundsUp)
  from getRandomWord_selects [OF u a]
  obtain i where sel: "randomIndex roundsUpEnv (length (wordLists Hard)) = int i"
    and call: "getRandomWord roundsUpEnv (JObj [(''difficulty'', JStr ''hard'')])
               = getWordDefinition roundsUpEnv
                   (JObj [(''word'', JStr (wordLists Hard ! i)), (''language'', JStr ''en'')])"
    unfolding Let_def orDefault.simps by blast
  from sel ix have "i = 8" by simp
  moreover have "wordLists Hard ! 8 = ''vicissitude''" by simp
  ultimately show ?thesis using call by simp
qed

subsection \<open>The pronunciation line\<close>

text \<open>
  C5, as stated, fails: an entry whose top-level phonetic string is present but empty
  does not get a line showing that (empty) string; the line shows the joined texts of
  its phonetics list.
\<close>

theorem present_empty_phonetic_counterexample:
  "phonetic emptyPhonetic = Some ''''
   \<and> formatEntry emptyPhonetic
       = Inr (''**a**'' @ newline @ newline @ ''**Pronunciation:** /ei/'' @ newline @ newline
              @ ''**Meanings:**'' @ newline @ newline)
   \<and> pronunciation emptyPhonetic \<noteq> ''**Pronunciation:** '' @ '''' @ newline @ newline"
  by (simp add: formatEntry_def pronunciation_def originLine_def formatAudio_def
      emptyPhonetic_def Let_def newline_def)

text \<open>
  C5, amended. The pronunciation part of the formatted output is: if the entry's
  top-level phonetic string is present and non-empty, the line showing that string;
  otherwise the line showing all non-empty texts of the phonetics list (none when the
  list is absent) joined with ", ", emitted only if that joined string is non-empty;
  otherwise nothing. Whenever the phonetics list is present, the output is the word
  header, a blank line, this part, and the rest.
\<close>

theorem pronunciation_line:
  "pronunciation entry =
     (case phonetic entry of
        Some s \<Rightarrow>
          if s \<noteq> [] then pronunciationLine s
          else if joinedTexts entry \<noteq> [] then pronunciationLine (joinedTexts entry) else []
      | None \<Rightarrow>
          if joinedTexts entry \<noteq> [] then pronunciationLine (joinedTexts entry) else [])
   \<and> (\<forall>ps. phonetics entry = Some ps \<longrightarrow>
         (\<exists>rest. formatEntry entry
                  = Inr (''**'' @ word entry @ ''**'' @ newline @ newline
                         @ pronunciation entry @ rest)))"
proof -
  have alt: "\<not> truthy (phonetic entry) \<Longrightarrow>
             pronunciation entry
             = (if joinedTexts entry \<noteq> [] then pronunciationLine (joinedTexts entry) else [])"
  proof (cases "phonetics entry")
    case None
    assume "\<not> truthy (phonetic entry)"
    with None show ?thesis
      by (simp add: pronunciation_def joinedTexts_def nonEmptyTexts_def)
  next
    case (Some ps)
    assume "\<not> truthy (phonetic entry)"
    show ?thesis
    proof (cases "ps = []")
      case True
      with Some \<open>\<not> truthy (phonetic entry)\<close> show ?thesis
        by (simp add: pronunciation_def joinedTexts_def nonEmptyTexts_def)
    next
      case False
      with Some \<open>\<not> truthy (phonetic entry)\<close> show ?thesis
        by (simp add: pronunciation_def joinedTexts_def truthy_texts pronunciationLine_def
            Let_def)
    qed
  qed
  have line: "pronunciation entry =
     (case phonetic entry of
        Some s \<Rightarrow>
          if s \<noteq> [] then pronunciationLine s
          else if joinedTexts entry \<noteq> [] then pronunciationLine (joinedTexts entry) else []
      | None \<Rightarrow>
          if joinedTexts entry \<noteq> [] then pronunciationLine (joinedTexts entry) else [])"
  proof (cases "phonetic entry")
    case None
    with alt show ?thesis by simp
  next
    case (Some s)
    show ?thesis
    proof (cases "s = []")
      case True
      with Some alt show ?thesis by simp
    next
      case False
      with Some show ?thesis by (simp add: pronunciation_def pronunciationLine_def)
    qed
  qed
  have out: "\<forall>ps. phonetics entry = Some ps \<longrightarrow>
         (\<exists>rest. formatEntry entry
                  = Inr (''**'' @ word entry @ ''**'' @ newline @ newline
                         @ pronunciation entry @ rest))"
    by (simp add: formatEntry_present)
  from line out show ?thesis by blast
qed

theorem pronunciation_line_witness:
  "pronunciation emptyPhonetic = pronunciationLine ''/ei/''
   \<and> (\<exists>rest. formatEntry emptyPhonetic
               = Inr (''**a**'' @ newline @ newline @ pronunciationLine ''/ei/'' @ rest))"
proof -
  have ps: "phonetics emptyPhonetic = Some [\<lparr>text_of = Some ''/ei/'', audio = None\<rparr>]"
    by (simp add: emptyPhonetic_def)
  have j: "joinedTexts emptyPhonetic = ''/ei/''"
    by (simp add: joinedTexts_def nonEmptyTexts_def emptyPhonetic_def)
  have p: "phonetic emptyPhonetic = Some []" by (simp add: emptyPhonetic_def)
  have w: "word emptyPhonetic = ''a''" by (simp add: emptyPhonetic_def)
  from pronunciation_line [of emptyPhonetic] ps
  show ?thesis by (auto simp: p j w)
qed


subsection \<open>The header\<close>




subsection \<open>Only the first entry counts\<close>

text \<open>
  C7. For two calls (any valid arguments, any two environments) whose 2xx responses
  are non-empty arrays with the same first entry: whatever text the formatting of that
  entry gives, both calls return exactly that text, whatever the further entries; such a
  text exists whenever the entry has its phonetics list; and when the two requests ask
  for the same word the two outcomes are equal in every case.
\<close>

theorem first_entry_only:
  assumes "GetDefinitionArgsSchema_parse args1 = Inr (w1, l1)"
    and "fetch e1 (apiUrl (orDefault ''en'' l1) w1) = Resolved r1" and "ok r1"
    and "json r1 = Inr (JsonArray (entry # others1))"
    and "GetDefinitionArgsSchema_parse args2 = Inr (w2, l2)"
    and "fetch e2 (apiUrl (orDefault ''en'' l2) w2) = Resolved r2" and "ok r2"
    and "json r2 = Inr (JsonArray (entry # others2))"
  shows "(\<forall>out. formatEntry entry = Inr out \<longrightarrow>
            fst (getWordDefinition e1 args1) = Inr (textResult out)
            \<and> fst (getWordDefinition e2 args2) = Inr (textResult out))
       \<and> (\<forall>ps. phonetics entry = Some ps \<longrightarrow> (\<exists>out. formatEntry entry = Inr out))
       \<and> (w1 = w2 \<longrightarrow> fst (getWordDefinition e1 args1) = fst (getWordDefinition e2 args2))"
proof -
  note g1 = getWordDefinition_entry [OF assms(1-4)]
  note g2 = getWordDefinition_entry [OF assms(5-8)]
  have a: "\<forall>out. formatEntry entry = Inr out \<longrightarrow>
            fst (getWordDefinition e1 args1) = Inr (textResult out)
            \<and> fst (getWordDefinition e2 args2) = Inr (textResult out)"
    by (simp add: g1 g2)
  have b: "\<forall>ps. phonetics entry = Some ps \<longrightarrow> (\<exists>out. formatEntry entry = Inr out)"
    by (simp add: formatEntry_present)
  have c: "w1 = w2 \<longrightarrow> fst (getWordDefinition e1 args1) = fst (getWordDefinition e2 args2)"
  proof (cases "phonetics entry")
    case None
    then show ?thesis
      by (simp add: g1 g2 formatEntry_absent readOfUndefined_def messageOr_def)
  next
    case (Some ps)
    then show ?thesis by (simp add: g1 g2 formatEntry_present)
  qed
  from a b c show ?thesis by blast
qed

theorem first_entry_only_witness:
  "fst (getWordDefinition (respond (entriesResponse [emptyPhonetic, noPhonetics])) (lookup ''A''))
   = fst (getWordDefinition (respond (entriesResponse [emptyPhonetic])) (lookup ''a''))"
proof -
  have p1: "GetDefinitionArgsSchema_parse (lookup ''A'') = Inr (''A'', None)"
    by (simp add: lookup_def)
  have f1: "fetch (respond (entriesResponse [emptyPhonetic, noPhonetics]))
             (apiUrl (orDefault ''en'' None) ''A'')
           = Resolved (entriesResponse [emptyPhonetic, noPhonetics])"
    by (simp add: respond_def)
  have k1: "ok (entriesResponse [emptyPhonetic, noPhonetics])"
    by (simp add: entriesResponse_def ok_def)
  have j1: "json (entriesResponse [emptyPhonetic, noPhonetics])
           = Inr (JsonArray (emptyPhonetic # [noPhonetics]))"
    by (simp add: entriesResponse_def)
  have p2: "GetDefinitionArgsSchema_parse (lookup ''a'') = Inr (''a'', None)"
    by (simp add: lookup_def)
  have f2: "fetch (respond (entriesResponse [emptyPhonetic]))
             (apiUrl (orDefault ''en'' None) ''a'')
           = Resolved (entriesResponse [emptyPhonetic])"
    by (simp add: respond_def)
  have k2: "ok (entriesResponse [emptyPhonetic])"
    by (simp add: entriesResponse_def ok_def)
  have j2: "json (entriesResponse [emptyPhonetic]) = Inr (JsonArray (emptyPhonetic # []))"
    by (simp add: entriesResponse_def)
  have ps: "phonetics emptyPhonetic = Some [\<lparr>text_of = Some ''/ei/'', audio = None\<rparr>]"
    by (simp add: emptyPhonetic_def)
  from first_entry_only [OF p1 f1 k1 j1 p2 f2 k2 j2] ps show ?thesis by fastforce
qed


subsection \<open>Validation comes first\<close>

text \<open>
  C8. When the word property of the argument object is the empty string, the operation
  throws the validation error (whose issues include "Word cannot be empty" at the path
  word) and its list of network effects is empty: no request was made. The handler
  returns "Error: " followed by the validator's message, again with no request.
\<close>

theorem empty_word_rejected:
  assumes "getProp kvs ''word'' = JStr []"
  shows "\<exists>issues. getWordDefinition e (JObj kvs) = (Inl (ZodError issues), [])
           \<and> TooSmall [''word''] ''Word cannot be empty'' \<in> set issues
           \<and> callTool e ''get_word_definition'' (JObj kvs)
               = (Inr (textResult (''Error: '' @ zodMessage e issues)), [])"
proof -
  define issues where
    "issues = TooSmall [''word''] ''Word cannot be empty''
              # issues_of (parse_language (getProp kvs ''language''))"
  have "GetDefinitionArgsSchema_parse (JObj kvs) = Inl (ZodError issues)"
    using assms by (simp add: issues_def del: getProp.simps split: sum.splits)
  then have g: "getWordDefinition e (JObj kvs) = (Inl (ZodError issues), [])"
    by (rule getWordDefinition_invalid)
  then have "callTool e ''get_word_definition'' (JObj kvs)
             = (Inr (textResult (''Error: '' @ zodMessage e issues)), [])"
    by (simp add: callTool_def invokeTool_def messageOr_def)
  moreover have "TooSmall [''word''] ''Word cannot be empty'' \<in> set issues"
    by (simp add: issues_def)
  ultimately show ?thesis using g by blast
qed

theorem empty_word_rejected_witness:
  "\<exists>issues. getWordDefinition (respond (entriesResponse [emptyPhonetic])) (lookup [])
              = (Inl (ZodError issues), [])
     \<and> callTool (respond (entriesResponse [emptyPhonetic])) ''get_word_definition'' (lookup [])
       = (Inr (textResult ''Error: invalid arguments''), [])"
proof -
  have a: "getProp [(''word'', JStr [])] ''word'' = JStr []" by simp
  from empty_word_rejected [OF a, of "respond (entriesResponse [emptyPhonetic])"]
  show ?thesis by (auto simp: lookup_def respond_def)
qed

subsection \<open>An entry without a phonetics list\<close>

text \<open>
  C9. When the API answers a valid request with a 2xx status and an array whose first
  entry has no phonetics field, the request and the decoding both happen and succeed,
  yet the operation throws
  \<^verbatim>\<open>Failed to fetch definition for "w": Cannot read properties of undefined (reading 'filter')\<close>
  and the caller receives "Error: " followed by that message; the pronunciation step on
  the same entry does not throw: it gives the line of the top-level phonetic string, or
  nothing.
\<close>

theorem missing_phonetics_fails:
  assumes "GetDefinitionArgsSchema_parse args = Inr (w, l)"
    and "fetch e (apiUrl (orDefault ''en'' l) w) = Resolved r" and "ok r"
    and "json r = Inr (JsonArray (entry # others))"
    and "phonetics entry = None"
  shows "getWordDefinition e args
           = (Inl (JsError (''Failed to fetch definition for '' @ dquote @ w @ dquote @ '': ''
                            @ ''Cannot read properties of undefined (reading '' @ squote
                            @ ''filter'' @ squote @ '')'')),
              [HttpGet (apiUrl (orDefault ''en'' l) w), ReadJson])
         \<and> fst (callTool e ''get_word_definition'' args)
           = Inr (textResult (''Error: Failed to fetch definition for '' @ dquote @ w @ dquote
                              @ '': '' @ ''Cannot read properties of undefined (reading ''
                              @ squote @ ''filter'' @ squote @ '')''))
         \<and> pronunciation entry
           = (if truthy (phonetic entry)
              then ''**Pronunciation:** '' @ templ (phonetic entry) @ newline @ newline
              else [])"
proof -
  have g: "getWordDefinition e args
           = (Inl (JsError (''Failed to fetch definition for '' @ dquote @ w @ dquote @ '': ''
                            @ ''Cannot read properties of undefined (reading '' @ squote
                            @ ''filter'' @ squote @ '')'')),
              [HttpGet (apiUrl (orDefault ''en'' l) w), ReadJson])"
    by (simp add: getWordDefinition_entry [OF assms(1-4)] formatEntry_absent [OF assms(5)]
        readOfUndefined_def messageOr_def)
  have c: "fst (callTool e ''get_word_definition'' args)
           = Inr (textResult (''Error: Failed to fetch definition for '' @ dquote @ w @ dquote
                              @ '': '' @ ''Cannot read properties of undefined (reading ''
                              @ squote @ ''filter'' @ squote @ '')''))"
    by (simp add: callTool_def invokeTool_def g messageOr_def)
  have p: "pronunciation entry
           = (if truthy (phonetic entry)
              then ''**Pronunciation:** '' @ templ (phonetic entry) @ newline @ newline
              else [])"
    using assms(5) by (simp add: pronunciation_def)
  from g c p show ?thesis by blast
qed

theorem missing_phonetics_fails_witness:
  "fst (callTool (respond (entriesResponse [noPhonetics])) ''get_word_definition'' (lookup ''a''))
     = Inr (textResult (''Error: Failed to fetch definition for '' @ dquote @ ''a'' @ dquote
                        @ '': Cannot read properties of undefined (reading '' @ squote
                        @ ''filter'' @ squote @ '')''))
   \<and> snd (getWordDefinition (respond (entriesResponse [noPhonetics])) (lookup ''a''))
     = [HttpGet ''https://api.dictionaryapi.dev/api/v2/entries/en/a'', ReadJson]"
proof -
  have p: "GetDefinitionArgsSchema_parse (lookup ''a'') = Inr (''a'', None)"
    by (simp add: lookup_def)
  have f: "fetch (respond (entriesResponse [noPhonetics])) (apiUrl (orDefault ''en'' None) ''a'')
           = Resolved (entriesResponse [noPhonetics])"
    by (simp add: respond_def)
  have k: "ok (entriesResponse [noPhonetics])" by (simp add: entriesResponse_def ok_def)
  have j: "json (entriesResponse [noPhonetics]) = Inr (JsonArray (noPhonetics # []))"
    by (simp add: entriesResponse_def)
  have n: "phonetics noPhonetics = None" by (simp add: noPhonetics_def)
  have u: "apiUrl ''en'' ''a''
           = ''https://api.dictionaryapi.dev/api/v2/entries/en/a''"
    by (simp add: apiUrl_def encodeURIComponent_def uriUnreserved_def)
  from missing_phonetics_fails [OF p f k j n] show ?thesis by (simp add: u)
qed

subsection \<open>A 404 never reads the body\<close>

text \<open>
  C10. For valid arguments: on a response with status 404 the operation returns the
  "No definition found" text after the request alone, whatever decoding the body would
  give (also a failure); and if the body was read at all, the response had a 2xx
  status.
\<close>

theorem not_found_skips_body:
  assumes "GetDefinitionArgsSchema_parse args = Inr (w, l)"
  shows "(\<forall>r. fetch e (apiUrl (orDefault ''en'' l) w) = Resolved r \<and> status r = 404 \<longrightarrow>
            getWordDefinition e args
            = (Inr (textResult (notFound404 w)), [HttpGet (apiUrl (orDefault ''en'' l) w)]))
       \<and> (ReadJson \<in> set (snd (getWordDefinition e args)) \<longrightarrow>
            (\<exists>r. fetch e (apiUrl (orDefault ''en'' l) w) = Resolved r \<and> ok r))"
proof -
  have a: "\<forall>r. fetch e (apiUrl (orDefault ''en'' l) w) = Resolved r \<and> status r = 404 \<longrightarrow>
            getWordDefinition e args
            = (Inr (textResult (notFound404 w)), [HttpGet (apiUrl (orDefault ''en'' l) w)])"
    by (simp add: getWordDefinition_parsed [OF assms] fetchDefinition_404)
  have b: "ReadJson \<in> set (snd (getWordDefinition e args)) \<longrightarrow>
            (\<exists>r. fetch e (apiUrl (orDefault ''en'' l) w) = Resolved r \<and> ok r)"
  proof (cases "fetch e (apiUrl (orDefault ''en'' l) w)")
    case (Rejected err)
    then show ?thesis
      by (simp add: getWordDefinition_parsed [OF assms] fetchDefinition_def Let_def)
  next
    case (Resolved r)
    show ?thesis
    proof (cases "ok r")
      case True
      with Resolved show ?thesis by simp
    next
      case False
      with Resolved show ?thesis
        by (simp add: getWordDefinition_parsed [OF assms] fetchDefinition_def Let_def)
    qed
  qed
  from a b show ?thesis by blast
qed

theorem not_found_skips_body_witness:
  "json notFoundResponse = Inl (JsError ''Unexpected end of JSON input'')
   \<and> getWordDefinition (respond notFoundResponse) (lookup ''zzz'')
     = (Inr (textResult (notFound404 ''zzz'')),
        [HttpGet ''https://api.dictionaryapi.dev/api/v2/entries/en/zzz''])"
proof -
  have p: "GetDefinitionArgsSchema_parse (lookup ''zzz'') = Inr (''zzz'', None)"
    by (simp add: lookup_def)
  have f: "fetch (respond notFoundResponse) (apiUrl (orDefault ''en'' None) ''zzz'')
           = Resolved notFoundResponse"
    by (simp add: respond_def)
  have s: "status notFoundResponse = 404" by (simp add: notFoundResponse_def)
  have u: "apiUrl ''en'' ''zzz''
           = ''https://api.dictionaryapi.dev/api/v2/entries/en/zzz''"
    by (simp add: apiUrl_def encodeURIComponent_def uriUnreserved_def)
  have b: "json notFoundResponse = Inl (JsError ''Unexpected end of JSON input'')"
    by (simp add: notFoundResponse_def)
  from not_found_skips_body [OF p, of "respond notFoundResponse"] f s b
  show ?thesis by (simp add: u)
qed

end
